theory Spec2Isabelle
  imports Complex_Main "HOL-Library.AList"
begin

section \<open>The colour system of \<open>textual/design.py\<close>\<close>

text \<open>
  The module imports \<open>Color\<close> and \<open>WHITE\<close> from \<open>textual/color.py\<close>,
  which is not among the sources. The development is therefore parametric in the
  colour type \<open>'c\<close> and in the operations \<open>design.py\<close> calls on it; they are
  collected in the record \<open>color_module\<close> and passed to every function that uses them.
  Python floats are modelled as reals (exact arithmetic), Python's \<open>int\<close> as \<open>int\<close>,
  \<open>str\<close> as \<open>string\<close>, \<open>dict[str, str]\<close> as an association list in insertion
  order that is written with \<open>AList.update\<close> (an existing key keeps its position and
  gets the new value, a new key is appended) and read with \<open>map_of\<close>.
\<close>

subsection \<open>Errors and the interface of the colour module\<close>

datatype error = ColorParseError string | AttributeError string

record 'c color_module =
  parse :: "string \<Rightarrow> error + 'c"
  blend :: "'c \<Rightarrow> 'c \<Rightarrow> real \<Rightarrow> 'c"
  lighten :: "'c \<Rightarrow> real \<Rightarrow> 'c"
  get_contrast_text :: "'c \<Rightarrow> real \<Rightarrow> 'c"
  clamped :: "'c \<Rightarrow> 'c"
  hex :: "'c \<Rightarrow> string"
  css :: "'c \<Rightarrow> string"
  WHITE :: "'c"

text \<open>Sequencing of calls that may raise: the first exception ends the computation.\<close>

definition and_then :: "error + 'a \<Rightarrow> ('a \<Rightarrow> error + 'b) \<Rightarrow> error + 'b" where
  "and_then m f = (case m of Inl e \<Rightarrow> Inl e | Inr x \<Rightarrow> f x)"

text \<open>
  Python's \<open>x or y\<close> on an optional colour. A colour object is taken to be truthy,
  as every object is whose class defines neither \<open>__bool__\<close> nor a \<open>__len__\<close> that
  can return 0 (the class \<open>Color\<close> is not among the sources), so only \<open>None\<close>
  selects the right operand, and the right operand is evaluated only then.
\<close>

definition py_or :: "'c option \<Rightarrow> 'c \<Rightarrow> 'c" where
  "py_or x y = (case x of None \<Rightarrow> y | Some c \<Rightarrow> c)"

definition py_or_lazy :: "'c option \<Rightarrow> (error + 'c) \<Rightarrow> error + 'c" where
  "py_or_lazy x y = (case x of None \<Rightarrow> y | Some c \<Rightarrow> Inr c)"

subsection \<open>Integers as text, ranges\<close>

definition digit_char :: "nat \<Rightarrow> char" where
  "digit_char d = ''0123456789'' ! d"

fun digits :: "nat \<Rightarrow> string" where
  "digits n = (if n < 10 then [digit_char n] else digits (n div 10) @ [digit_char (n mod 10)])"

declare digits.simps [simp del]

text \<open>\<open>str(i)\<close> for an integer.\<close>

definition str :: "int \<Rightarrow> string" where
  "str i = (if i < 0 then ''-'' @ digits (nat (- i)) else digits (nat i))"

text \<open>\<open>range(a, b)\<close>.\<close>

definition py_range :: "int \<Rightarrow> int \<Rightarrow> int list" where
  "py_range a b = [a..b - 1]"

subsection \<open>Module constants\<close>

definition NUMBER_OF_SHADES :: int where
  "NUMBER_OF_SHADES = 3"

definition DEFAULT_DARK_BACKGROUND :: string where
  "DEFAULT_DARK_BACKGROUND = ''#000000''"

definition DEFAULT_DARK_SURFACE :: string where
  "DEFAULT_DARK_SURFACE = ''#121212''"

definition DEFAULT_LIGHT_BACKGROUND :: string where
  "DEFAULT_LIGHT_BACKGROUND = ''#f5f5f5''"

definition DEFAULT_LIGHT_SURFACE :: string where
  "DEFAULT_LIGHT_SURFACE = ''#efefef''"

subsection \<open>\<open>ColorSystem\<close> and the \<open>ColorProperty\<close> descriptor\<close>

text \<open>
  The instance attributes \<open>_primary\<close>, \<open>_secondary\<close>, ... hold what the constructor
  was given: a string, or \<open>None\<close> for the eight optional ones.
\<close>

record ColorSystem =
  attr_primary :: string
  attr_secondary :: "string option"
  attr_warning :: "string option"
  attr_error :: "string option"
  attr_success :: "string option"
  attr_accent1 :: "string option"
  attr_accent2 :: "string option"
  attr_background :: "string option"
  attr_surface :: "string option"

definition COLOR_NAMES :: "string list" where
  "COLOR_NAMES = [''primary'', ''secondary'', ''background'', ''surface'', ''warning'',
     ''error'', ''success'', ''accent1'', ''accent2'']"

text \<open>\<open>ColorSystem.__init__\<close>: nine assignments, no call that can raise.\<close>

definition ColorSystem_init ::
  "string \<Rightarrow> string option \<Rightarrow> string option \<Rightarrow> string option \<Rightarrow> string option \<Rightarrow>
   string option \<Rightarrow> string option \<Rightarrow> string option \<Rightarrow> string option \<Rightarrow> ColorSystem" where
  "ColorSystem_init primary secondary warning error success accent1 accent2 background surface =
     \<lparr> attr_primary = primary, attr_secondary = secondary, attr_warning = warning,
       attr_error = error, attr_success = success, attr_accent1 = accent1,
       attr_accent2 = accent2, attr_background = background, attr_surface = surface \<rparr>"

text \<open>
  The eight descriptor instances of the class body, each standing for its \<open>_name\<close>
  (set by \<open>__set_name__\<close> to the attribute name with a leading underscore).
\<close>

datatype ColorProperty =
  Secondary | Warning | Error | Success | Accent1 | Accent2 | Surface | Background

fun getattr :: "ColorSystem \<Rightarrow> ColorProperty \<Rightarrow> string option" where
  "getattr obj Secondary = attr_secondary obj"
| "getattr obj Warning = attr_warning obj"
| "getattr obj Error = attr_error obj"
| "getattr obj Success = attr_success obj"
| "getattr obj Accent1 = attr_accent1 obj"
| "getattr obj Accent2 = attr_accent2 obj"
| "getattr obj Surface = attr_surface obj"
| "getattr obj Background = attr_background obj"

fun setattr :: "ColorSystem \<Rightarrow> ColorProperty \<Rightarrow> string option \<Rightarrow> ColorSystem" where
  "setattr obj Secondary v = obj\<lparr>attr_secondary := v\<rparr>"
| "setattr obj Warning v = obj\<lparr>attr_warning := v\<rparr>"
| "setattr obj Error v = obj\<lparr>attr_error := v\<rparr>"
| "setattr obj Success v = obj\<lparr>attr_success := v\<rparr>"
| "setattr obj Accent1 v = obj\<lparr>attr_accent1 := v\<rparr>"
| "setattr obj Accent2 v = obj\<lparr>attr_accent2 := v\<rparr>"
| "setattr obj Surface v = obj\<lparr>attr_surface := v\<rparr>"
| "setattr obj Background v = obj\<lparr>attr_background := v\<rparr>"

text \<open>\<open>ColorProperty.__get__\<close>: \<open>None\<close> stays \<open>None\<close>, a string is parsed on every read.\<close>

definition ColorProperty_get ::
  "'c color_module \<Rightarrow> ColorProperty \<Rightarrow> ColorSystem \<Rightarrow> error + 'c option" where
  "ColorProperty_get m self obj =
     (case getattr obj self of
        None \<Rightarrow> Inr None
      | Some color \<Rightarrow> and_then (parse m color) (\<lambda>c. Inr (Some c)))"

text \<open>
  \<open>ColorProperty.__set__\<close>: the value assigned is a colour, a string or \<open>None\<close>;
  a colour is stored as its \<open>css\<close> text, anything else as it is.
\<close>

datatype 'c py_value = ColorValue 'c | StrValue string | NoneValue

definition ColorProperty_set ::
  "'c color_module \<Rightarrow> ColorProperty \<Rightarrow> ColorSystem \<Rightarrow> 'c py_value \<Rightarrow> ColorSystem" where
  "ColorProperty_set m self obj v =
     (case v of
        ColorValue c \<Rightarrow> setattr obj self (Some (css m c))
      | StrValue s \<Rightarrow> setattr obj self (Some s)
      | NoneValue \<Rightarrow> setattr obj self None)"

text \<open>The property \<open>primary\<close>: a getter only.\<close>

definition primary :: "'c color_module \<Rightarrow> ColorSystem \<Rightarrow> error + 'c" where
  "primary m self = parse m (attr_primary self)"

text \<open>
  The public attributes of an instance and the statement \<open>obj.name = value\<close>:
  \<open>primary\<close> is a property without a setter, so the assignment raises
  \<open>AttributeError\<close>; the other eight go through \<open>ColorProperty.__set__\<close>.
\<close>

datatype attribute = Primary | Descriptor ColorProperty

fun assign ::
  "'c color_module \<Rightarrow> ColorSystem \<Rightarrow> attribute \<Rightarrow> 'c py_value \<Rightarrow> error + ColorSystem" where
  "assign m obj Primary v = Inl (AttributeError ''primary'')"
| "assign m obj (Descriptor p) v = Inr (ColorProperty_set m p obj v)"

text \<open>Reading a public attribute: \<open>obj.name\<close>.\<close>

fun read :: "'c color_module \<Rightarrow> ColorSystem \<Rightarrow> attribute \<Rightarrow> error + 'c option" where
  "read m obj Primary = and_then (primary m obj) (\<lambda>c. Inr (Some c))"
| "read m obj (Descriptor p) = ColorProperty_get m p obj"

text \<open>The property \<open>shades\<close>: the names of the colours and their derived shades.\<close>

definition shades :: "string list" where
  "shades =
     concat (map (\<lambda>color.
       map (\<lambda>shade_number.
              if shade_number < 0 then color @ ''-darken-'' @ str (abs shade_number)
              else if shade_number > 0 then color @ ''-lighten-'' @ str shade_number
              else color)
           (py_range (- NUMBER_OF_SHADES) (NUMBER_OF_SHADES + 1)))
       COLOR_NAMES)"

subsection \<open>\<open>ColorSystem.generate\<close>\<close>

text \<open>Lines 130 to 144: the nine local colours, in the order they are computed.\<close>

record 'c resolved =
  r_primary :: 'c
  r_secondary :: 'c
  r_warning :: 'c
  r_error :: 'c
  r_success :: 'c
  r_accent1 :: 'c
  r_accent2 :: 'c
  r_background :: 'c
  r_surface :: 'c

definition generate_resolve ::
  "'c color_module \<Rightarrow> ColorSystem \<Rightarrow> bool \<Rightarrow> error + 'c resolved" where
  "generate_resolve m self dark =
     and_then (primary m self) (\<lambda>primary.
     and_then (ColorProperty_get m Secondary self) (\<lambda>x. let secondary = py_or x primary in
     and_then (ColorProperty_get m Warning self) (\<lambda>x. let warning = py_or x primary in
     and_then (ColorProperty_get m Error self) (\<lambda>x. let error = py_or x secondary in
     and_then (ColorProperty_get m Success self) (\<lambda>x. let success = py_or x secondary in
     and_then (ColorProperty_get m Accent1 self) (\<lambda>x. let accent1 = py_or x primary in
     and_then (ColorProperty_get m Accent2 self) (\<lambda>x. let accent2 = py_or x secondary in
     and_then (ColorProperty_get m Background self) (\<lambda>x.
     and_then (py_or_lazy x
        (parse m (if dark then DEFAULT_DARK_BACKGROUND else DEFAULT_LIGHT_BACKGROUND)))
       (\<lambda>background.
     and_then (ColorProperty_get m Surface self) (\<lambda>x.
     and_then (py_or_lazy x
        (parse m (if dark then DEFAULT_DARK_SURFACE else DEFAULT_LIGHT_SURFACE)))
       (\<lambda>surface.
     Inr \<lparr> r_primary = primary, r_secondary = secondary, r_warning = warning,
           r_error = error, r_success = success, r_accent1 = accent1,
           r_accent2 = accent2, r_background = background, r_surface = surface \<rparr>
     )))))))))))"

text \<open>The list \<open>COLORS\<close> of lines 166 to 176.\<close>

definition COLORS :: "'c resolved \<Rightarrow> (string \<times> 'c) list" where
  "COLORS r =
     [(''primary'', r_primary r), (''secondary'', r_secondary r),
      (''background'', r_background r), (''surface'', r_surface r),
      (''warning'', r_warning r), (''error'', r_error r), (''success'', r_success r),
      (''accent1'', r_accent1 r), (''accent2'', r_accent2 r)]"

definition DARK_SHADES :: "string set" where
  "DARK_SHADES = {''primary'', ''secondary''}"

text \<open>The suffix computed in \<open>luminosity_range\<close> for the shade number \<open>n\<close>.\<close>

definition shade_label :: "int \<Rightarrow> string" where
  "shade_label n =
     (let label = (if n < 0 then ''-darken'' else if n > 0 then ''-lighten'' else '''')
      in label @ (if n \<noteq> 0 then ''-'' @ str (abs n) else ''''))"

definition luminosity_range :: "real \<Rightarrow> (string \<times> real) list" where
  "luminosity_range spread =
     (let luminosity_step = spread / 2
      in map (\<lambda>n. (shade_label n, of_int n * luminosity_step))
           (py_range (- NUMBER_OF_SHADES) (NUMBER_OF_SHADES + 1)))"

text \<open>The body of \<open>for fade in range(3)\<close>, lines 195 to 201.\<close>

definition fade_body ::
  "'c color_module \<Rightarrow> real \<Rightarrow> string \<Rightarrow> string \<Rightarrow> 'c \<Rightarrow>
   (string \<times> string) list \<Rightarrow> int \<Rightarrow> (string \<times> string) list" where
  "fade_body m text_alpha name shade_name shade_color colors fade =
     (let text_color = get_contrast_text m shade_color text_alpha
      in if fade > 0 then
           (let text_color = blend m text_color shade_color (of_int fade * 0.1 + 0.15);
                on_name = ''text-'' @ name @ shade_name @ ''-fade-'' @ str fade
            in AList.update on_name (hex m text_color) colors)
         else
           (let on_name = ''text-'' @ name @ shade_name
            in AList.update on_name (hex m text_color) colors))"

text \<open>The colour of one shade, lines 185 to 192.\<close>

definition shade_color_of ::
  "'c color_module \<Rightarrow> 'c \<Rightarrow> bool \<Rightarrow> real \<Rightarrow> 'c \<Rightarrow> real \<Rightarrow> 'c" where
  "shade_color_of m background is_dark_shade spread color luminosity_delta =
     (if is_dark_shade then
        (let dark_background = blend m background color (12 / 100)
         in clamped m (blend m dark_background (WHITE m) (spread + luminosity_delta)))
      else lighten m color luminosity_delta)"

text \<open>The body of the loop over \<open>luminosity_range(spread)\<close>, lines 185 to 201.\<close>

definition shade_body ::
  "'c color_module \<Rightarrow> 'c \<Rightarrow> real \<Rightarrow> bool \<Rightarrow> real \<Rightarrow> string \<Rightarrow> 'c \<Rightarrow>
   (string \<times> string) list \<Rightarrow> string \<times> real \<Rightarrow> (string \<times> string) list" where
  "shade_body m background text_alpha is_dark_shade spread name color colors item =
     (case item of (shade_name, luminosity_delta) \<Rightarrow>
        (let shade_color = shade_color_of m background is_dark_shade spread color luminosity_delta;
             colors = AList.update (name @ shade_name) (hex m shade_color) colors
         in foldl (fade_body m text_alpha name shade_name shade_color) colors (py_range 0 3)))"

text \<open>The body of the loop over \<open>COLORS\<close>, lines 182 to 201.\<close>

definition color_body ::
  "'c color_module \<Rightarrow> 'c \<Rightarrow> bool \<Rightarrow> real \<Rightarrow> real \<Rightarrow>
   (string \<times> string) list \<Rightarrow> string \<times> 'c \<Rightarrow> (string \<times> string) list" where
  "color_body m background dark luminosity_spread text_alpha colors item =
     (case item of (name, color) \<Rightarrow>
        (let is_dark_shade = (dark \<and> name \<in> DARK_SHADES);
             spread = (if is_dark_shade then luminosity_spread / 1.5 else luminosity_spread)
         in foldl (shade_body m background text_alpha is_dark_shade spread name color)
              colors (luminosity_range spread)))"

definition generate ::
  "'c color_module \<Rightarrow> ColorSystem \<Rightarrow> bool \<Rightarrow> real \<Rightarrow> real \<Rightarrow>
   error + (string \<times> string) list" where
  "generate m self dark luminosity_spread text_alpha =
     and_then (generate_resolve m self dark) (\<lambda>r.
       Inr (foldl (color_body m (r_background r) dark luminosity_spread text_alpha)
              [] (COLORS r)))"

subsection \<open>A colour module for evaluation\<close>

text \<open>
  Modelled from the spec: the \<open>Color\<close> value type and \<open>WHITE\<close> of
  \<open>textual/color.py\<close>, which is not among the sources. Section 3 of the specification
  gives the contract only: channels red, green and blue and an optional alpha,
  \<open>parse\<close> that fails on malformed input, \<open>blend\<close> linear toward another colour,
  \<open>lighten\<close> by a signed delta, a contrasting foreground at a given alpha, clamping to
  the displayable range, and (section 6) a hex form \<open>#rrggbb\<close>. \<open>rgb_module\<close> is one
  implementation of that contract over integer channels. No general theorem below
  depends on it: it supplies the concrete inputs at which the theorems are instantiated.
\<close>

datatype rgba = RGBA (red: int) (green: int) (blue: int) (alpha: real)

definition hex_value :: "char \<Rightarrow> int option" where
  "hex_value c =
     (let n = (of_char c :: nat)
      in if 48 \<le> n \<and> n \<le> 57 then Some (int n - 48)
         else if 97 \<le> n \<and> n \<le> 102 then Some (int n - 87)
         else if 65 \<le> n \<and> n \<le> 70 then Some (int n - 55)
         else None)"

definition hex_pair :: "char \<Rightarrow> char \<Rightarrow> int option" where
  "hex_pair a b =
     (case hex_value a of
        None \<Rightarrow> None
      | Some x \<Rightarrow> (case hex_value b of None \<Rightarrow> None | Some y \<Rightarrow> Some (16 * x + y)))"

definition rgb_parse :: "string \<Rightarrow> error + rgba" where
  "rgb_parse s =
     (case s of
        [h, r1, r2, g1, g2, b1, b2] \<Rightarrow>
          (if h = CHR ''#'' then
             (case hex_pair r1 r2 of
                None \<Rightarrow> Inl (ColorParseError s)
              | Some r \<Rightarrow>
                 (case hex_pair g1 g2 of
                    None \<Rightarrow> Inl (ColorParseError s)
                  | Some g \<Rightarrow>
                     (case hex_pair b1 b2 of
                        None \<Rightarrow> Inl (ColorParseError s)
                      | Some b \<Rightarrow> Inr (RGBA r g b 1))))
           else Inl (ColorParseError s))
      | _ \<Rightarrow> Inl (ColorParseError s))"

definition clamp_channel :: "int \<Rightarrow> int" where
  "clamp_channel v = max 0 (min 255 v)"

definition rgb_clamped :: "rgba \<Rightarrow> rgba" where
  "rgb_clamped c =
     RGBA (clamp_channel (red c)) (clamp_channel (green c)) (clamp_channel (blue c))
       (max 0 (min 1 (alpha c)))"

definition blend_channel :: "int \<Rightarrow> int \<Rightarrow> real \<Rightarrow> int" where
  "blend_channel x y factor = \<lfloor>of_int x + (of_int y - of_int x) * factor\<rfloor>"

definition rgb_blend :: "rgba \<Rightarrow> rgba \<Rightarrow> real \<Rightarrow> rgba" where
  "rgb_blend c d factor =
     RGBA (blend_channel (red c) (red d) factor) (blend_channel (green c) (green d) factor)
       (blend_channel (blue c) (blue d) factor) (alpha c)"

definition rgb_lighten :: "rgba \<Rightarrow> real \<Rightarrow> rgba" where
  "rgb_lighten c amount =
     rgb_clamped (RGBA (red c + \<lfloor>amount * 255\<rfloor>) (green c + \<lfloor>amount * 255\<rfloor>)
       (blue c + \<lfloor>amount * 255\<rfloor>) (alpha c))"

definition rgb_get_contrast_text :: "rgba \<Rightarrow> real \<Rightarrow> rgba" where
  "rgb_get_contrast_text c a =
     (if 2 * (red c + green c + blue c) < 3 * 255 then RGBA 255 255 255 a else RGBA 0 0 0 a)"

definition hex_digit :: "nat \<Rightarrow> char" where
  "hex_digit d = ''0123456789ABCDEF'' ! d"

definition hex2 :: "int \<Rightarrow> string" where
  "hex2 v = (let n = nat (clamp_channel v) in [hex_digit (n div 16), hex_digit (n mod 16)])"

definition rgb_hex :: "rgba \<Rightarrow> string" where
  "rgb_hex c = ''#'' @ hex2 (red c) @ hex2 (green c) @ hex2 (blue c)"

definition rgb_module :: "rgba color_module" where
  "rgb_module =
     \<lparr> parse = rgb_parse, blend = rgb_blend, lighten = rgb_lighten,
       get_contrast_text = rgb_get_contrast_text, clamped = rgb_clamped,
       hex = rgb_hex, css = rgb_hex, WHITE = RGBA 255 255 255 1 \<rparr>"

text \<open>The colour system built under \<open>__main__\<close> at the end of the module.\<close>

definition color_system :: ColorSystem where
  "color_system =
     ColorSystem_init ''#005EA8'' (Some ''#F59402'') (Some ''#ffa000'') (Some ''#C62828'')
       (Some ''#558B2F'') None None None None"

text \<open>A colour system with only the primary colour set.\<close>

definition primary_only :: ColorSystem where
  "primary_only = ColorSystem_init ''#005EA8'' None None None None None None None None"

text \<open>A colour system whose secondary colour is not a colour.\<close>

definition malformed_system :: ColorSystem where
  "malformed_system =
     ColorSystem_init ''#005EA8'' (Some ''orange'') None None None None None None None"







subsection \<open>Well-formed inputs\<close>

text \<open>
  A colour system has valid colours for a mode when every call of \<open>Color.parse\<close> that
  \<open>generate\<close> makes in that mode returns: on \<open>_primary\<close>, on each optional attribute
  that is set, and on the default for the mode where background or surface is unset.
\<close>

definition parses :: "'c color_module \<Rightarrow> string \<Rightarrow> bool" where
  "parses m s = (case parse m s of Inl e \<Rightarrow> False | Inr c \<Rightarrow> True)"

definition parses_if_set :: "'c color_module \<Rightarrow> string option \<Rightarrow> bool" where
  "parses_if_set m v = (case v of None \<Rightarrow> True | Some s \<Rightarrow> parses m s)"

definition parses_or :: "'c color_module \<Rightarrow> string option \<Rightarrow> string \<Rightarrow> bool" where
  "parses_or m v d = (case v of None \<Rightarrow> parses m d | Some s \<Rightarrow> parses m s)"

definition valid_colors :: "'c color_module \<Rightarrow> ColorSystem \<Rightarrow> bool \<Rightarrow> bool" where
  "valid_colors m self dark =
     (parses m (attr_primary self) \<and> parses_if_set m (attr_secondary self) \<and>
      parses_if_set m (attr_warning self) \<and> parses_if_set m (attr_error self) \<and>
      parses_if_set m (attr_success self) \<and> parses_if_set m (attr_accent1 self) \<and>
      parses_if_set m (attr_accent2 self) \<and>
      parses_or m (attr_background self)
        (if dark then DEFAULT_DARK_BACKGROUND else DEFAULT_LIGHT_BACKGROUND) \<and>
      parses_or m (attr_surface self)
        (if dark then DEFAULT_DARK_SURFACE else DEFAULT_LIGHT_SURFACE))"

text \<open>The text stored behind a public attribute.\<close>

fun stored :: "ColorSystem \<Rightarrow> attribute \<Rightarrow> string option" where
  "stored obj Primary = Some (attr_primary obj)"
| "stored obj (Descriptor p) = getattr obj p"



subsection \<open>The writes of \<open>generate\<close>, in order\<close>

text \<open>
  Each loop body stores into \<open>colors\<close>; \<open>store\<close> performs a list of such writes.
  \<open>fade_write\<close>, \<open>shade_writes\<close>, \<open>color_writes\<close> and \<open>all_writes\<close> list the
  pairs written by one pass of the fade loop, of the shade loop, of the colour loop, and
  by the whole of \<open>generate\<close>.
\<close>

definition store ::
  "(string \<times> string) list \<Rightarrow> (string \<times> string) list \<Rightarrow> (string \<times> string) list" where
  "store colors ws = foldl (\<lambda>d w. AList.update (fst w) (snd w) d) colors ws"

definition fade_write ::
  "'c color_module \<Rightarrow> real \<Rightarrow> string \<Rightarrow> string \<Rightarrow> 'c \<Rightarrow> int \<Rightarrow> string \<times> string" where
  "fade_write m text_alpha name shade_name shade_color fade =
     (if fade > 0 then
        (''text-'' @ name @ shade_name @ ''-fade-'' @ str fade,
         hex m (blend m (get_contrast_text m shade_color text_alpha) shade_color
                  (of_int fade * 0.1 + 0.15)))
      else (''text-'' @ name @ shade_name, hex m (get_contrast_text m shade_color text_alpha)))"

definition shade_writes ::
  "'c color_module \<Rightarrow> 'c \<Rightarrow> real \<Rightarrow> bool \<Rightarrow> real \<Rightarrow> string \<Rightarrow> 'c \<Rightarrow> string \<times> real \<Rightarrow>
   (string \<times> string) list" where
  "shade_writes m background text_alpha is_dark_shade spread name color item =
     (case item of (shade_name, luminosity_delta) \<Rightarrow>
        (let shade_color = shade_color_of m background is_dark_shade spread color luminosity_delta
         in (name @ shade_name, hex m shade_color) #
            map (fade_write m text_alpha name shade_name shade_color) (py_range 0 3)))"

definition color_writes ::
  "'c color_module \<Rightarrow> 'c \<Rightarrow> bool \<Rightarrow> real \<Rightarrow> real \<Rightarrow> string \<times> 'c \<Rightarrow> (string \<times> string) list" where
  "color_writes m background dark luminosity_spread text_alpha item =
     (case item of (name, color) \<Rightarrow>
        (let is_dark_shade = (dark \<and> name \<in> DARK_SHADES);
             spread = (if is_dark_shade then luminosity_spread / 1.5 else luminosity_spread)
         in concat (map (shade_writes m background text_alpha is_dark_shade spread name color)
              (luminosity_range spread))))"

definition all_writes ::
  "'c color_module \<Rightarrow> 'c resolved \<Rightarrow> bool \<Rightarrow> real \<Rightarrow> real \<Rightarrow> (string \<times> string) list" where
  "all_writes m r dark ls ta =
     concat (map (color_writes m (r_background r) dark ls ta) (COLORS r))"

text \<open>
  The four names that belong to a shade name, and the names of a whole palette in the
  order \<open>generate\<close> writes them.
\<close>

definition shade_keys :: "string \<Rightarrow> string list" where
  "shade_keys s = [s, ''text-'' @ s, ''text-'' @ s @ ''-fade-1'', ''text-'' @ s @ ''-fade-2'']"

definition palette_keys :: "string list" where
  "palette_keys = concat (map shade_keys shades)"

text \<open>A name that neither starts with \<open>text-\<close> nor ends with a fade suffix.\<close>

definition plain_name :: "string \<Rightarrow> bool" where
  "plain_name s =
     (take 5 s \<noteq> ''text-'' \<and> take 7 (rev s) \<noteq> ''1-edaf-'' \<and> take 7 (rev s) \<noteq> ''2-edaf-'')"

section \<open>Ranges and names\<close>

lemma str_small: "str 1 = ''1''" "str 2 = ''2''" "str 3 = ''3''"
  by (simp_all add: str_def digits.simps digit_char_def)

lemma shade_range:
  "py_range (- NUMBER_OF_SHADES) (NUMBER_OF_SHADES + 1) = [-3, -2, -1, 0, 1, 2, 3]"
  by (simp add: py_range_def NUMBER_OF_SHADES_def upto.simps)

lemma shade_range_set: "set (py_range (- NUMBER_OF_SHADES) (NUMBER_OF_SHADES + 1)) = {-3..3}"
proof -
  have "NUMBER_OF_SHADES + 1 - 1 = 3" "- NUMBER_OF_SHADES = - 3"
    by (simp_all add: NUMBER_OF_SHADES_def)
  then show ?thesis
    unfolding py_range_def by (simp only: set_upto)
qed

lemma fade_range: "py_range 0 3 = [0, 1, 2]"
  by (simp add: py_range_def upto.simps)

lemma shades_by_label:
  "shades =
     concat (map (\<lambda>name. map (\<lambda>n. name @ shade_label n) [-3, -2, -1, 0, 1, 2, 3]) COLOR_NAMES)"
  by (simp add: shades_def shade_range shade_label_def)

lemma length_shades: "length shades = 63"
  by (simp add: shades_by_label COLOR_NAMES_def)

lemma distinct_shades: "distinct shades"
  by (simp add: shades_by_label COLOR_NAMES_def shade_label_def str_small)

lemma plain_shades: "list_all plain_name shades"
  by (simp add: shades_by_label COLOR_NAMES_def shade_label_def str_small plain_name_def)

lemma plain_shade: "s \<in> set shades \<Longrightarrow> plain_name s"
  using plain_shades by (simp add: list_all_iff)

lemma plain_not_text: "plain_name s \<Longrightarrow> s \<noteq> ''text-'' @ t"
  by (auto simp: plain_name_def)

lemma plain_not_fade:
  assumes "plain_name s"
  shows "s \<noteq> t @ ''-fade-1''" "s \<noteq> t @ ''-fade-2''"
proof -
  have "take 7 (rev (t @ ''-fade-1'')) = ''1-edaf-''"
    "take 7 (rev (t @ ''-fade-2'')) = ''2-edaf-''"
    by simp_all
  with assms show "s \<noteq> t @ ''-fade-1''" "s \<noteq> t @ ''-fade-2''"
    by (auto simp: plain_name_def)
qed

lemma distinct_shade_keys: "plain_name s \<Longrightarrow> distinct (shade_keys s)"
  using plain_not_text [of s] plain_not_fade [of s s]
  by (auto simp: shade_keys_def)

lemma disjoint_shade_keys:
  assumes "plain_name s" "plain_name t" "s \<noteq> t"
  shows "set (shade_keys s) \<inter> set (shade_keys t) = {}"
  using assms plain_not_text [of s] plain_not_text [of t]
    plain_not_fade [of s t] plain_not_fade [of t s]
  by (auto simp: shade_keys_def)

lemma distinct_concat_map:
  assumes "distinct xs"
    and "\<And>x. x \<in> set xs \<Longrightarrow> distinct (g x)"
    and "\<And>x y. x \<in> set xs \<Longrightarrow> y \<in> set xs \<Longrightarrow> x \<noteq> y \<Longrightarrow> set (g x) \<inter> set (g y) = {}"
  shows "distinct (concat (map g xs))"
  using assms
proof (induction xs)
  case Nil
  then show ?case by simp
next
  case (Cons x xs)
  have "distinct (concat (map g xs))"
    using Cons.prems by (intro Cons.IH) auto
  moreover have "set (g x) \<inter> set (g y) = {}" if "y \<in> set xs" for y
    using Cons.prems(1) that by (intro Cons.prems(3)) auto
  ultimately show ?case
    using Cons.prems(2) [of x] by auto
qed

lemma distinct_palette_keys: "distinct palette_keys"
  unfolding palette_keys_def
  by (intro distinct_concat_map distinct_shades distinct_shade_keys disjoint_shade_keys
      plain_shade)

lemma length_palette_keys: "length palette_keys = 252"
proof -
  have "length (concat (map shade_keys xs)) = 4 * length xs" for xs
    by (induction xs) (simp_all add: shade_keys_def)
  then show ?thesis by (simp add: palette_keys_def length_shades)
qed

lemma set_palette_keys:
  "set palette_keys =
     set shades \<union> (\<lambda>s. ''text-'' @ s) ` set shades \<union>
     (\<lambda>s. ''text-'' @ s @ ''-fade-1'') ` set shades \<union>
     (\<lambda>s. ''text-'' @ s @ ''-fade-2'') ` set shades"
  by (auto simp: palette_keys_def shade_keys_def)

section \<open>The loops of \<open>generate\<close> as a list of writes\<close>

lemma store_Nil: "store colors [] = colors"
  by (simp add: store_def)

lemma store_Cons: "store colors (w # ws) = store (AList.update (fst w) (snd w) colors) ws"
  by (simp add: store_def)

lemma store_append: "store (store colors ws) ws' = store colors (ws @ ws')"
  by (simp add: store_def)

lemma store_concat:
  assumes "\<And>d x. f d x = store d (g x)"
  shows "foldl f colors xs = store colors (concat (map g xs))"
  by (induction xs arbitrary: colors) (simp_all add: assms store_Nil store_append [symmetric])

lemma update_fresh: "k \<notin> fst ` set al \<Longrightarrow> AList.update k v al = al @ [(k, v)]"
  by (induction al) auto

lemma store_distinct: "distinct (map fst (colors @ ws)) \<Longrightarrow> store colors ws = colors @ ws"
proof (induction ws arbitrary: colors)
  case Nil
  then show ?case by (simp add: store_Nil)
next
  case (Cons w ws)
  have fresh: "fst w \<notin> fst ` set colors" using Cons.prems by auto
  have "store colors (w # ws) = store (colors @ [w]) ws"
    by (simp add: store_Cons update_fresh [OF fresh])
  also have "\<dots> = (colors @ [w]) @ ws"
    using Cons.prems by (intro Cons.IH) simp
  finally show ?case by simp
qed

lemma fade_body_store:
  "fade_body m ta name sn sc colors fade = store colors [fade_write m ta name sn sc fade]"
  by (simp add: fade_body_def fade_write_def store_Cons store_Nil Let_def)

lemma shade_body_store:
  "shade_body m bg ta ids spread name color colors item =
     store colors (shade_writes m bg ta ids spread name color item)"
proof (cases item)
  case (Pair sn d)
  have "foldl (fade_body m ta name sn sc) cs fs = store cs (map (fade_write m ta name sn sc) fs)"
    for sc cs fs
    using store_concat [of "fade_body m ta name sn sc" "\<lambda>x. [fade_write m ta name sn sc x]" cs fs]
    by (simp add: fade_body_store)
  then show ?thesis
    by (simp add: Pair shade_body_def shade_writes_def Let_def store_Cons)
qed

lemma color_body_store:
  "color_body m bg dark ls ta colors item = store colors (color_writes m bg dark ls ta item)"
proof (cases item)
  case (Pair name color)
  show ?thesis
    unfolding Pair color_body_def color_writes_def Let_def prod.case
    by (rule store_concat) (rule shade_body_store)
qed

lemma generate_loop_store:
  "foldl (color_body m (r_background r) dark ls ta) [] (COLORS r) =
     store [] (all_writes m r dark ls ta)"
  unfolding all_writes_def by (rule store_concat) (rule color_body_store)

lemma shade_writes_explicit:
  "shade_writes m bg ta ids spread name color (sn, d) =
     (let c = shade_color_of m bg ids spread color d
      in [(name @ sn, hex m c),
          (''text-'' @ name @ sn, hex m (get_contrast_text m c ta)),
          (''text-'' @ name @ sn @ ''-fade-1'',
             hex m (blend m (get_contrast_text m c ta) c 0.25)),
          (''text-'' @ name @ sn @ ''-fade-2'',
             hex m (blend m (get_contrast_text m c ta) c 0.35))])"
  by (simp add: shade_writes_def fade_range fade_write_def str_small Let_def)

lemma keys_shade_writes:
  "map fst (shade_writes m bg ta ids spread name color (sn, d)) = shade_keys (name @ sn)"
  by (simp add: shade_writes_explicit shade_keys_def Let_def)

lemma keys_color_writes:
  "map fst (color_writes m bg dark ls ta (name, color)) =
     concat (map (\<lambda>n. shade_keys (name @ shade_label n)) [-3, -2, -1, 0, 1, 2, 3])"
  by (simp add: color_writes_def luminosity_range_def shade_range Let_def
      map_concat keys_shade_writes)

lemma keys_all_writes: "map fst (all_writes m r dark ls ta) = palette_keys"
  unfolding all_writes_def palette_keys_def shades_by_label COLORS_def COLOR_NAMES_def
  by (simp add: map_concat keys_color_writes)

lemma all_writes_distinct: "distinct (map fst (all_writes m r dark ls ta))"
  by (simp add: keys_all_writes distinct_palette_keys)

lemma store_all_writes: "store [] (all_writes m r dark ls ta) = all_writes m r dark ls ta"
  using store_distinct [of "[]" "all_writes m r dark ls ta"] by (simp add: all_writes_distinct)

lemma and_then_Inr: "and_then x f = Inr y \<longleftrightarrow> (\<exists>v. x = Inr v \<and> f v = Inr y)"
  by (cases x) (simp_all add: and_then_def)

lemma and_then_Inl: "and_then x f = Inl e \<longleftrightarrow> x = Inl e \<or> (\<exists>v. x = Inr v \<and> f v = Inl e)"
  by (cases x) (simp_all add: and_then_def)

lemma generate_Inr:
  "generate_resolve m self dark = Inr r \<Longrightarrow>
   generate m self dark ls ta = Inr (all_writes m r dark ls ta)"
  by (simp add: generate_def and_then_def generate_loop_store store_all_writes)

lemma generate_Inl:
  "generate_resolve m self dark = Inl e \<Longrightarrow> generate m self dark ls ta = Inl e"
  by (simp add: generate_def and_then_def)

section \<open>Reading the palette\<close>

lemma luminosity_range_mem:
  "n \<in> {-3..3} \<Longrightarrow> (shade_label n, of_int n * (spread / 2)) \<in> set (luminosity_range spread)"
  unfolding luminosity_range_def Let_def set_map shade_range_set by (rule imageI)

lemma shade_writes_subset:
  assumes "(name, color) \<in> set (COLORS r)" "n \<in> {-3..3}"
    and "ids = (dark \<and> name \<in> DARK_SHADES)"
    and "spread = (if ids then ls / 1.5 else ls)"
  shows "set (shade_writes m (r_background r) ta ids spread name color
            (shade_label n, of_int n * (spread / 2)))
         \<subseteq> set (all_writes m r dark ls ta)"
proof -
  have "set (shade_writes m (r_background r) ta ids spread name color
            (shade_label n, of_int n * (spread / 2)))
        \<subseteq> set (color_writes m (r_background r) dark ls ta (name, color))"
    using luminosity_range_mem [OF assms(2), of spread] assms(3,4)
    by (auto simp: color_writes_def Let_def)
  also have "\<dots> \<subseteq> set (all_writes m r dark ls ta)"
    using assms(1) by (auto simp: all_writes_def)
  finally show ?thesis .
qed

lemma lookup_write:
  assumes "(k, v) \<in> set (all_writes m r dark ls ta)"
  shows "map_of (all_writes m r dark ls ta) k = Some v"
  using assms all_writes_distinct by (rule map_of_is_SomeI [rotated])

lemma shade_entries:
  assumes "(name, color) \<in> set (COLORS r)" "n \<in> {-3..3}"
    and "ids = (dark \<and> name \<in> DARK_SHADES)"
    and "spread = (if ids then ls / 1.5 else ls)"
    and "c = shade_color_of m (r_background r) ids spread color (of_int n * (spread / 2))"
    and "pal = all_writes m r dark ls ta"
  shows "map_of pal (name @ shade_label n) = Some (hex m c) \<and>
     map_of pal (''text-'' @ name @ shade_label n) = Some (hex m (get_contrast_text m c ta)) \<and>
     map_of pal (''text-'' @ name @ shade_label n @ ''-fade-1'') =
       Some (hex m (blend m (get_contrast_text m c ta) c 0.25)) \<and>
     map_of pal (''text-'' @ name @ shade_label n @ ''-fade-2'') =
       Some (hex m (blend m (get_contrast_text m c ta) c 0.35))"
proof -
  let ?ws = "shade_writes m (r_background r) ta ids spread name color
               (shade_label n, of_int n * (spread / 2))"
  have sub: "set ?ws \<subseteq> set pal"
    unfolding assms(6) using assms(1-4) by (rule shade_writes_subset)
  have mem: "(name @ shade_label n, hex m c) \<in> set ?ws"
    "(''text-'' @ name @ shade_label n, hex m (get_contrast_text m c ta)) \<in> set ?ws"
    "(''text-'' @ name @ shade_label n @ ''-fade-1'',
        hex m (blend m (get_contrast_text m c ta) c 0.25)) \<in> set ?ws"
    "(''text-'' @ name @ shade_label n @ ''-fade-2'',
        hex m (blend m (get_contrast_text m c ta) c 0.35)) \<in> set ?ws"
    by (simp_all add: shade_writes_explicit Let_def assms(5))
  show ?thesis
    using sub mem unfolding assms(6) by (intro conjI lookup_write) blast+
qed






lemma shade_label_zero: "shade_label 0 = ''''"
  by (simp add: shade_label_def)



section \<open>Resolution of the nine colours\<close>

lemma parses_Inr: "parses m s \<Longrightarrow> \<exists>c. parse m s = Inr c"
  by (cases "parse m s") (simp_all add: parses_def)

lemma get_if_set:
  assumes "parses_if_set m (getattr self p)"
  shows "\<exists>x. ColorProperty_get m p self = Inr x"
proof (cases "getattr self p")
  case None
  then show ?thesis by (simp add: ColorProperty_get_def)
next
  case (Some s)
  with assms obtain c where "parse m s = Inr c"
    using parses_Inr [of m s] by (auto simp: parses_if_set_def)
  with Some show ?thesis by (simp add: ColorProperty_get_def and_then_def)
qed

lemma get_or_default:
  assumes "parses_or m (getattr self p) d"
  shows "\<exists>x c. ColorProperty_get m p self = Inr x \<and> py_or_lazy x (parse m d) = Inr c"
proof (cases "getattr self p")
  case None
  with assms obtain c where "parse m d = Inr c"
    using parses_Inr [of m d] by (auto simp: parses_or_def)
  with None show ?thesis by (simp add: ColorProperty_get_def py_or_lazy_def)
next
  case (Some s)
  with assms obtain c where "parse m s = Inr c"
    using parses_Inr [of m s] by (auto simp: parses_or_def)
  with Some show ?thesis by (simp add: ColorProperty_get_def and_then_def py_or_lazy_def)
qed

lemma resolve_total:
  assumes "valid_colors m self dark"
  shows "\<exists>r. generate_resolve m self dark = Inr r"
proof -
  from assms obtain p where p: "primary m self = Inr p"
    using parses_Inr [of m "attr_primary self"] by (auto simp: valid_colors_def primary_def)
  from assms obtain x1 where x1: "ColorProperty_get m Secondary self = Inr x1"
    using get_if_set [of m self Secondary] by (auto simp: valid_colors_def)
  from assms obtain x2 where x2: "ColorProperty_get m Warning self = Inr x2"
    using get_if_set [of m self Warning] by (auto simp: valid_colors_def)
  from assms obtain x3 where x3: "ColorProperty_get m Error self = Inr x3"
    using get_if_set [of m self Error] by (auto simp: valid_colors_def)
  from assms obtain x4 where x4: "ColorProperty_get m Success self = Inr x4"
    using get_if_set [of m self Success] by (auto simp: valid_colors_def)
  from assms obtain x5 where x5: "ColorProperty_get m Accent1 self = Inr x5"
    using get_if_set [of m self Accent1] by (auto simp: valid_colors_def)
  from assms obtain x6 where x6: "ColorProperty_get m Accent2 self = Inr x6"
    using get_if_set [of m self Accent2] by (auto simp: valid_colors_def)
  from assms
  have "parses_or m (getattr self Background)
          (if dark then DEFAULT_DARK_BACKGROUND else DEFAULT_LIGHT_BACKGROUND)"
    by (simp add: valid_colors_def)
  from get_or_default [OF this]
  obtain x7 bg where x7: "ColorProperty_get m Background self = Inr x7"
    "py_or_lazy x7 (parse m (if dark then DEFAULT_DARK_BACKGROUND
        else DEFAULT_LIGHT_BACKGROUND)) = Inr bg"
    by blast
  from assms
  have "parses_or m (getattr self Surface)
          (if dark then DEFAULT_DARK_SURFACE else DEFAULT_LIGHT_SURFACE)"
    by (simp add: valid_colors_def)
  from get_or_default [OF this]
  obtain x8 sf where x8: "ColorProperty_get m Surface self = Inr x8"
    "py_or_lazy x8 (parse m (if dark then DEFAULT_DARK_SURFACE
        else DEFAULT_LIGHT_SURFACE)) = Inr sf"
    by blast
  show ?thesis
    by (simp add: generate_resolve_def and_then_def Let_def p x1 x2 x3 x4 x5 x6 x7 x8)
qed

lemma get_Inl: "ColorProperty_get m p self = Inl e \<Longrightarrow> \<exists>s. parse m s = Inl e"
  by (auto simp: ColorProperty_get_def and_then_Inl split: option.splits)

lemma or_lazy_Inl: "py_or_lazy x (parse m d) = Inl e \<Longrightarrow> \<exists>s. parse m s = Inl e"
  by (auto simp: py_or_lazy_def split: option.splits)

lemma resolve_Inl:
  assumes "generate_resolve m self dark = Inl e"
  shows "\<exists>s. parse m s = Inl e"
  using assms unfolding generate_resolve_def Let_def and_then_Inl primary_def
  by (elim disjE exE conjE) (blast dest: get_Inl or_lazy_Inl)+

lemma get_unset: "getattr self p = None \<Longrightarrow> ColorProperty_get m p self = Inr x \<Longrightarrow> x = None"
  by (simp add: ColorProperty_get_def)

lemma get_set:
  "getattr self p = Some s \<Longrightarrow> ColorProperty_get m p self = Inr x \<Longrightarrow>
   \<exists>c. x = Some c \<and> parse m s = Inr c"
  by (auto simp: ColorProperty_get_def and_then_Inr)

lemma resolve_Inr:
  assumes "generate_resolve m self dark = Inr r"
  shows "\<exists>p x1 x2 x3 x4 x5 x6 x7 x8 bg sf.
      primary m self = Inr p \<and>
      ColorProperty_get m Secondary self = Inr x1 \<and>
      ColorProperty_get m Warning self = Inr x2 \<and>
      ColorProperty_get m Error self = Inr x3 \<and>
      ColorProperty_get m Success self = Inr x4 \<and>
      ColorProperty_get m Accent1 self = Inr x5 \<and>
      ColorProperty_get m Accent2 self = Inr x6 \<and>
      ColorProperty_get m Background self = Inr x7 \<and>
      py_or_lazy x7 (parse m (if dark then DEFAULT_DARK_BACKGROUND
          else DEFAULT_LIGHT_BACKGROUND)) = Inr bg \<and>
      ColorProperty_get m Surface self = Inr x8 \<and>
      py_or_lazy x8 (parse m (if dark then DEFAULT_DARK_SURFACE
          else DEFAULT_LIGHT_SURFACE)) = Inr sf \<and>
      r = \<lparr> r_primary = p, r_secondary = py_or x1 p, r_warning = py_or x2 p,
            r_error = py_or x3 (py_or x1 p), r_success = py_or x4 (py_or x1 p),
            r_accent1 = py_or x5 p, r_accent2 = py_or x6 (py_or x1 p),
            r_background = bg, r_surface = sf \<rparr>"
  using assms unfolding generate_resolve_def Let_def and_then_Inr
  apply (elim exE conjE)
  apply (intro exI conjI)
             apply assumption+
  apply simp
  done

lemma get_Inr_set: "ColorProperty_get m p self = Inr x \<Longrightarrow> parses_if_set m (getattr self p)"
  by (auto simp: ColorProperty_get_def and_then_Inr parses_if_set_def parses_def
      split: option.splits)

lemma get_Inr_or:
  "ColorProperty_get m p self = Inr x \<Longrightarrow> py_or_lazy x (parse m d) = Inr c \<Longrightarrow>
   parses_or m (getattr self p) d"
  by (auto simp: ColorProperty_get_def and_then_Inr parses_or_def parses_def py_or_lazy_def
      split: option.splits)

lemma resolve_valid:
  assumes "generate_resolve m self dark = Inr r"
  shows "valid_colors m self dark"
proof -
  from resolve_Inr [OF assms] obtain p x1 x2 x3 x4 x5 x6 x7 x8 bg sf where
    p: "primary m self = Inr p"
    and x1: "ColorProperty_get m Secondary self = Inr x1"
    and x2: "ColorProperty_get m Warning self = Inr x2"
    and x3: "ColorProperty_get m Error self = Inr x3"
    and x4: "ColorProperty_get m Success self = Inr x4"
    and x5: "ColorProperty_get m Accent1 self = Inr x5"
    and x6: "ColorProperty_get m Accent2 self = Inr x6"
    and x7: "ColorProperty_get m Background self = Inr x7"
    and bg: "py_or_lazy x7 (parse m (if dark then DEFAULT_DARK_BACKGROUND
          else DEFAULT_LIGHT_BACKGROUND)) = Inr bg"
    and x8: "ColorProperty_get m Surface self = Inr x8"
    and sf: "py_or_lazy x8 (parse m (if dark then DEFAULT_DARK_SURFACE
          else DEFAULT_LIGHT_SURFACE)) = Inr sf"
    by blast
  have "parses m (attr_primary self)"
    using p by (simp add: primary_def parses_def)
  then show ?thesis
    using get_Inr_set [OF x1] get_Inr_set [OF x2] get_Inr_set [OF x3] get_Inr_set [OF x4]
      get_Inr_set [OF x5] get_Inr_set [OF x6] get_Inr_or [OF x7 bg] get_Inr_or [OF x8 sf]
    by (simp add: valid_colors_def)
qed

section \<open>Attributes\<close>

lemma read_stored:
  "read m obj a =
     (case stored obj a of
        None \<Rightarrow> Inr None
      | Some t \<Rightarrow> (case parse m t of Inl x \<Rightarrow> Inl x | Inr c \<Rightarrow> Inr (Some c)))"
  by (cases a) (simp_all add: primary_def ColorProperty_get_def and_then_def
      split: option.splits)

lemma getattr_setattr: "getattr (setattr obj p v) q = (if q = p then v else getattr obj q)"
  by (cases p; cases q) simp_all

lemma primary_setattr: "attr_primary (setattr obj p v) = attr_primary obj"
  by (cases p) simp_all

section \<open>Concrete inputs\<close>

lemma rgb_parse_samples:
  "rgb_parse ''#005EA8'' = Inr (RGBA 0 94 168 1)"
  "rgb_parse ''#F59402'' = Inr (RGBA 245 148 2 1)"
  "rgb_parse ''#ffa000'' = Inr (RGBA 255 160 0 1)"
  "rgb_parse ''#C62828'' = Inr (RGBA 198 40 40 1)"
  "rgb_parse ''#558B2F'' = Inr (RGBA 85 139 47 1)"
  "rgb_parse ''#000000'' = Inr (RGBA 0 0 0 1)"
  "rgb_parse ''#121212'' = Inr (RGBA 18 18 18 1)"
  "rgb_parse ''#f5f5f5'' = Inr (RGBA 245 245 245 1)"
  "rgb_parse ''#efefef'' = Inr (RGBA 239 239 239 1)"
  "rgb_parse ''orange'' = Inl (ColorParseError ''orange'')"
  by (simp_all add: rgb_parse_def hex_pair_def hex_value_def)


lemma resolve_color_system_light:
  "generate_resolve rgb_module color_system False =
     Inr \<lparr> r_primary = RGBA 0 94 168 1, r_secondary = RGBA 245 148 2 1,
           r_warning = RGBA 255 160 0 1, r_error = RGBA 198 40 40 1,
           r_success = RGBA 85 139 47 1, r_accent1 = RGBA 0 94 168 1,
           r_accent2 = RGBA 245 148 2 1, r_background = RGBA 245 245 245 1,
           r_surface = RGBA 239 239 239 1 \<rparr>"
  by (simp add: generate_resolve_def Let_def and_then_def primary_def ColorProperty_get_def py_or_def
      py_or_lazy_def color_system_def ColorSystem_init_def rgb_module_def rgb_parse_samples
      DEFAULT_LIGHT_BACKGROUND_def DEFAULT_LIGHT_SURFACE_def)

lemma valid_color_system: "valid_colors rgb_module color_system dark"
  by (simp add: valid_colors_def parses_def parses_if_set_def parses_or_def rgb_module_def
      color_system_def ColorSystem_init_def rgb_parse_samples
      DEFAULT_DARK_BACKGROUND_def DEFAULT_LIGHT_BACKGROUND_def DEFAULT_DARK_SURFACE_def
      DEFAULT_LIGHT_SURFACE_def)

lemma valid_primary_only: "valid_colors rgb_module primary_only dark"
  by (simp add: valid_colors_def parses_def parses_if_set_def parses_or_def rgb_module_def
      primary_only_def ColorSystem_init_def rgb_parse_samples
      DEFAULT_DARK_BACKGROUND_def DEFAULT_LIGHT_BACKGROUND_def DEFAULT_DARK_SURFACE_def
      DEFAULT_LIGHT_SURFACE_def)

lemma rgb_lighten_zero:
  "rgb_lighten (RGBA 0 94 168 1) 0 = RGBA 0 94 168 1"
  by (simp add: rgb_lighten_def rgb_clamped_def clamp_channel_def)

lemma resolve_malformed:
  "generate_resolve rgb_module malformed_system dark = Inl (ColorParseError ''orange'')"
  by (simp add: generate_resolve_def Let_def and_then_def primary_def ColorProperty_get_def
      malformed_system_def ColorSystem_init_def rgb_module_def rgb_parse_samples)

lemma color_system_attrs:
  "attr_primary color_system = ''#005EA8''" "attr_secondary color_system = Some ''#F59402''"
  "attr_warning color_system = Some ''#ffa000''" "attr_error color_system = Some ''#C62828''"
  "attr_success color_system = Some ''#558B2F''" "attr_accent1 color_system = None"
  "attr_accent2 color_system = None" "attr_background color_system = None"
  "attr_surface color_system = None"
  by (simp_all add: color_system_def ColorSystem_init_def)



section \<open>The palette is complete\<close>

text \<open>
  Claim C1. For a colour system with valid colours and any mode, luminosity spread and
  text alpha, \<open>generate\<close> returns a mapping with exactly 252 entries under pairwise
  different names: the 63 names of \<open>shades\<close> (9 colour names, 7 shades each) and, for
  each such name \<open>s\<close>, the names \<open>text-s\<close>, \<open>text-s-fade-1\<close> and
  \<open>text-s-fade-2\<close>. These 252 names are all different, none is missing, and every one
  of them has a value.
\<close>

theorem generate_complete:
  assumes "valid_colors m self dark"
  shows "\<exists>pal. generate m self dark ls ta = Inr pal \<and> length pal = 252 \<and>
     distinct (map fst pal) \<and> length shades = 63 \<and>
     set (map fst pal) =
       set shades \<union> (\<lambda>s. ''text-'' @ s) ` set shades \<union>
       (\<lambda>s. ''text-'' @ s @ ''-fade-1'') ` set shades \<union>
       (\<lambda>s. ''text-'' @ s @ ''-fade-2'') ` set shades \<and>
     distinct (shades @ map (\<lambda>s. ''text-'' @ s) shades @
       map (\<lambda>s. ''text-'' @ s @ ''-fade-1'') shades @
       map (\<lambda>s. ''text-'' @ s @ ''-fade-2'') shades) \<and>
     (\<forall>k \<in> set (map fst pal). \<exists>v. map_of pal k = Some v)"
proof -
  from resolve_total [OF assms] obtain r where r: "generate_resolve m self dark = Inr r" ..
  let ?pal = "all_writes m r dark ls ta"
  let ?names = "shades @ map (\<lambda>s. ''text-'' @ s) shades @
       map (\<lambda>s. ''text-'' @ s @ ''-fade-1'') shades @
       map (\<lambda>s. ''text-'' @ s @ ''-fade-2'') shades"
  have gen: "generate m self dark ls ta = Inr ?pal"
    using r by (rule generate_Inr)
  have len: "length ?pal = 252"
    using length_palette_keys keys_all_writes [of m r dark ls ta] length_map [of fst ?pal]
    by simp
  have dist: "distinct (map fst ?pal)"
    by (rule all_writes_distinct)
  have keys: "set (map fst ?pal) = set ?names"
    by (simp add: keys_all_writes set_palette_keys Un_assoc)
  have "set ?names = set palette_keys"
    by (simp add: set_palette_keys Un_assoc)
  then have "card (set ?names) = card (set palette_keys)"
    by (rule arg_cong)
  also have "\<dots> = length palette_keys"
    by (rule distinct_card [OF distinct_palette_keys])
  also have "\<dots> = length ?names"
    by (simp add: length_palette_keys length_shades)
  finally have names: "distinct ?names"
    by (rule card_distinct)
  have vals: "\<forall>k \<in> set (map fst ?pal). \<exists>v. map_of ?pal k = Some v"
    using lookup_write by fastforce
  show ?thesis
    using gen len dist keys names vals length_shades
    by (intro exI [of _ ?pal]) (simp add: Un_assoc)
qed

theorem generate_complete_witness:
  "valid_colors rgb_module color_system True \<and>
   (\<exists>pal. generate rgb_module color_system True 0.15 0.9 = Inr pal \<and> length pal = 252 \<and>
      distinct (map fst pal) \<and>
      map_of pal ''text-accent2-lighten-3-fade-2'' \<noteq> None)"
proof -
  have v: "valid_colors rgb_module color_system True"
    by (rule valid_color_system)
  have s: "''accent2-lighten-3'' \<in> set shades"
    by (simp add: shades_by_label COLOR_NAMES_def shade_label_def str_small)
  from generate_complete [OF v, of "0.15" "0.9"] obtain pal where
    pal: "generate rgb_module color_system True 0.15 0.9 = Inr pal" "length pal = 252"
      "distinct (map fst pal)"
      "set (map fst pal) =
       set shades \<union> (\<lambda>s. ''text-'' @ s) ` set shades \<union>
       (\<lambda>s. ''text-'' @ s @ ''-fade-1'') ` set shades \<union>
       (\<lambda>s. ''text-'' @ s @ ''-fade-2'') ` set shades"
      "\<forall>k \<in> set (map fst pal). \<exists>v. map_of pal k = Some v"
    by blast
  have "''text-'' @ ''accent2-lighten-3'' @ ''-fade-2'' \<in> set (map fst pal)"
    unfolding pal(4) using s by blast
  with pal(5) have "map_of pal ''text-accent2-lighten-3-fade-2'' \<noteq> None"
    by fastforce
  with v pal show ?thesis by blast
qed

section \<open>Fallback of unset colours\<close>

text \<open>
  Claim C2. \<open>generate\<close> resolves the nine colours as follows. The primary colour is
  the parse of \<open>_primary\<close>, and an optional colour that is set is the parse of its own
  text. Of the optional colours that are unset, secondary, warning and accent1 become the
  primary colour; error, success and accent2 become the resolved secondary colour (which
  may itself be the primary colour); background and surface become the parse of a fixed
  default, \<open>DEFAULT_DARK_BACKGROUND\<close> and \<open>DEFAULT_DARK_SURFACE\<close> in dark mode,
  \<open>DEFAULT_LIGHT_BACKGROUND\<close> and \<open>DEFAULT_LIGHT_SURFACE\<close> otherwise. With only
  primary set, secondary, warning, accent1, error, success and accent2 all resolve to the
  primary colour. The palette is computed from these nine colours.
\<close>

theorem fallback_chain:
  assumes "valid_colors m self dark"
  shows "\<exists>r. generate_resolve m self dark = Inr r \<and>
     generate m self dark ls ta =
       Inr (foldl (color_body m (r_background r) dark ls ta) [] (COLORS r)) \<and>
     primary m self = Inr (r_primary r) \<and>
     parse m (attr_primary self) = Inr (r_primary r) \<and>
     (attr_secondary self = None \<longrightarrow> r_secondary r = r_primary r) \<and>
     (attr_warning self = None \<longrightarrow> r_warning r = r_primary r) \<and>
     (attr_accent1 self = None \<longrightarrow> r_accent1 r = r_primary r) \<and>
     (attr_error self = None \<longrightarrow> r_error r = r_secondary r) \<and>
     (attr_success self = None \<longrightarrow> r_success r = r_secondary r) \<and>
     (attr_accent2 self = None \<longrightarrow> r_accent2 r = r_secondary r) \<and>
     (attr_background self = None \<longrightarrow>
        parse m (if dark then DEFAULT_DARK_BACKGROUND else DEFAULT_LIGHT_BACKGROUND) =
          Inr (r_background r)) \<and>
     (attr_surface self = None \<longrightarrow>
        parse m (if dark then DEFAULT_DARK_SURFACE else DEFAULT_LIGHT_SURFACE) =
          Inr (r_surface r)) \<and>
     (\<forall>s. attr_secondary self = Some s \<longrightarrow> parse m s = Inr (r_secondary r)) \<and>
     (\<forall>s. attr_warning self = Some s \<longrightarrow> parse m s = Inr (r_warning r)) \<and>
     (\<forall>s. attr_error self = Some s \<longrightarrow> parse m s = Inr (r_error r)) \<and>
     (\<forall>s. attr_success self = Some s \<longrightarrow> parse m s = Inr (r_success r)) \<and>
     (\<forall>s. attr_accent1 self = Some s \<longrightarrow> parse m s = Inr (r_accent1 r)) \<and>
     (\<forall>s. attr_accent2 self = Some s \<longrightarrow> parse m s = Inr (r_accent2 r)) \<and>
     (\<forall>s. attr_background self = Some s \<longrightarrow> parse m s = Inr (r_background r)) \<and>
     (\<forall>s. attr_surface self = Some s \<longrightarrow> parse m s = Inr (r_surface r)) \<and>
     (attr_secondary self = None \<and> attr_warning self = None \<and> attr_error self = None \<and>
      attr_success self = None \<and> attr_accent1 self = None \<and> attr_accent2 self = None \<longrightarrow>
        r_secondary r = r_primary r \<and> r_warning r = r_primary r \<and>
        r_accent1 r = r_primary r \<and> r_error r = r_primary r \<and>
        r_success r = r_primary r \<and> r_accent2 r = r_primary r)"
proof -
  from resolve_total [OF assms] obtain r where r: "generate_resolve m self dark = Inr r" ..
  from resolve_Inr [OF r] obtain p x1 x2 x3 x4 x5 x6 x7 x8 bg sf where
    p: "primary m self = Inr p"
    and x1: "ColorProperty_get m Secondary self = Inr x1"
    and x2: "ColorProperty_get m Warning self = Inr x2"
    and x3: "ColorProperty_get m Error self = Inr x3"
    and x4: "ColorProperty_get m Success self = Inr x4"
    and x5: "ColorProperty_get m Accent1 self = Inr x5"
    and x6: "ColorProperty_get m Accent2 self = Inr x6"
    and x7: "ColorProperty_get m Background self = Inr x7"
    and bg: "py_or_lazy x7 (parse m (if dark then DEFAULT_DARK_BACKGROUND
          else DEFAULT_LIGHT_BACKGROUND)) = Inr bg"
    and x8: "ColorProperty_get m Surface self = Inr x8"
    and sf: "py_or_lazy x8 (parse m (if dark then DEFAULT_DARK_SURFACE
          else DEFAULT_LIGHT_SURFACE)) = Inr sf"
    and r_eq: "r = \<lparr> r_primary = p, r_secondary = py_or x1 p, r_warning = py_or x2 p,
            r_error = py_or x3 (py_or x1 p), r_success = py_or x4 (py_or x1 p),
            r_accent1 = py_or x5 p, r_accent2 = py_or x6 (py_or x1 p),
            r_background = bg, r_surface = sf \<rparr>"
    by blast
  have unset: "x1 = None" if "attr_secondary self = None"
    using that x1 get_unset [of self Secondary m x1] by simp
  have "x2 = None" if "attr_warning self = None"
    using that x2 get_unset [of self Warning m x2] by simp
  moreover have "x3 = None" if "attr_error self = None"
    using that x3 get_unset [of self Error m x3] by simp
  moreover have "x4 = None" if "attr_success self = None"
    using that x4 get_unset [of self Success m x4] by simp
  moreover have "x5 = None" if "attr_accent1 self = None"
    using that x5 get_unset [of self Accent1 m x5] by simp
  moreover have "x6 = None" if "attr_accent2 self = None"
    using that x6 get_unset [of self Accent2 m x6] by simp
  moreover have "x7 = None" if "attr_background self = None"
    using that x7 get_unset [of self Background m x7] by simp
  moreover have "x8 = None" if "attr_surface self = None"
    using that x8 get_unset [of self Surface m x8] by simp
  ultimately have fields:
    "primary m self = Inr (r_primary r)"
    "attr_secondary self = None \<longrightarrow> r_secondary r = r_primary r"
    "attr_warning self = None \<longrightarrow> r_warning r = r_primary r"
    "attr_accent1 self = None \<longrightarrow> r_accent1 r = r_primary r"
    "attr_error self = None \<longrightarrow> r_error r = r_secondary r"
    "attr_success self = None \<longrightarrow> r_success r = r_secondary r"
    "attr_accent2 self = None \<longrightarrow> r_accent2 r = r_secondary r"
    "attr_background self = None \<longrightarrow>
        parse m (if dark then DEFAULT_DARK_BACKGROUND else DEFAULT_LIGHT_BACKGROUND) =
          Inr (r_background r)"
    "attr_surface self = None \<longrightarrow>
        parse m (if dark then DEFAULT_DARK_SURFACE else DEFAULT_LIGHT_SURFACE) =
          Inr (r_surface r)"
    using unset p bg sf by (auto simp: r_eq py_or_def py_or_lazy_def)
  have own_primary: "parse m (attr_primary self) = Inr (r_primary r)"
    using p by (simp add: primary_def r_eq)
  have own:
    "\<forall>s. attr_secondary self = Some s \<longrightarrow> parse m s = Inr (r_secondary r)"
    "\<forall>s. attr_warning self = Some s \<longrightarrow> parse m s = Inr (r_warning r)"
    "\<forall>s. attr_error self = Some s \<longrightarrow> parse m s = Inr (r_error r)"
    "\<forall>s. attr_success self = Some s \<longrightarrow> parse m s = Inr (r_success r)"
    "\<forall>s. attr_accent1 self = Some s \<longrightarrow> parse m s = Inr (r_accent1 r)"
    "\<forall>s. attr_accent2 self = Some s \<longrightarrow> parse m s = Inr (r_accent2 r)"
    "\<forall>s. attr_background self = Some s \<longrightarrow> parse m s = Inr (r_background r)"
    "\<forall>s. attr_surface self = Some s \<longrightarrow> parse m s = Inr (r_surface r)"
    using get_set [OF _ x1] get_set [OF _ x2] get_set [OF _ x3] get_set [OF _ x4]
      get_set [OF _ x5] get_set [OF _ x6] get_set [OF _ x7] get_set [OF _ x8] bg sf
    by (auto simp: r_eq py_or_def py_or_lazy_def)
  have gen: "generate m self dark ls ta =
       Inr (foldl (color_body m (r_background r) dark ls ta) [] (COLORS r))"
    by (simp add: generate_def and_then_def r)
  from fields(2-7) have all:
    "attr_secondary self = None \<and> attr_warning self = None \<and> attr_error self = None \<and>
      attr_success self = None \<and> attr_accent1 self = None \<and> attr_accent2 self = None \<longrightarrow>
        r_secondary r = r_primary r \<and> r_warning r = r_primary r \<and>
        r_accent1 r = r_primary r \<and> r_error r = r_primary r \<and>
        r_success r = r_primary r \<and> r_accent2 r = r_primary r"
    by simp
  show ?thesis
    using r gen fields own_primary own all by (intro exI [of _ r] conjI)
qed

theorem fallback_chain_witness:
  "valid_colors rgb_module color_system True \<and>
   (\<exists>r. generate_resolve rgb_module color_system True = Inr r \<and>
      r_primary r = RGBA 0 94 168 1 \<and> r_secondary r = RGBA 245 148 2 1 \<and>
      r_warning r = RGBA 255 160 0 1 \<and> r_error r = RGBA 198 40 40 1 \<and>
      r_success r = RGBA 85 139 47 1 \<and> r_accent1 r = RGBA 0 94 168 1 \<and>
      r_accent2 r = RGBA 245 148 2 1 \<and> r_background r = RGBA 0 0 0 1 \<and>
      r_surface r = RGBA 18 18 18 1) \<and>
   valid_colors rgb_module primary_only False \<and>
   (\<exists>r. generate_resolve rgb_module primary_only False = Inr r \<and>
      r_primary r = RGBA 0 94 168 1 \<and> r_secondary r = RGBA 0 94 168 1 \<and>
      r_warning r = RGBA 0 94 168 1 \<and> r_accent1 r = RGBA 0 94 168 1 \<and>
      r_error r = RGBA 0 94 168 1 \<and> r_success r = RGBA 0 94 168 1 \<and>
      r_accent2 r = RGBA 0 94 168 1 \<and> r_background r = RGBA 245 245 245 1 \<and>
      r_surface r = RGBA 239 239 239 1)"
proof -
  have v: "valid_colors rgb_module color_system True"
    by (rule valid_color_system)
  have parse_eq: "parse rgb_module s = rgb_parse s" for s
    by (simp add: rgb_module_def)
  from fallback_chain [OF v, of "0.15" "0.9"] obtain r where
    r: "generate_resolve rgb_module color_system True = Inr r"
    and p: "parse rgb_module (attr_primary color_system) = Inr (r_primary r)"
    and own: "parse rgb_module ''#F59402'' = Inr (r_secondary r)"
      "parse rgb_module ''#ffa000'' = Inr (r_warning r)"
      "parse rgb_module ''#C62828'' = Inr (r_error r)"
      "parse rgb_module ''#558B2F'' = Inr (r_success r)"
    and fall: "r_accent1 r = r_primary r" "r_accent2 r = r_secondary r"
      "parse rgb_module DEFAULT_DARK_BACKGROUND = Inr (r_background r)"
      "parse rgb_module DEFAULT_DARK_SURFACE = Inr (r_surface r)"
    by (auto simp: color_system_attrs)
  have first: "\<exists>r. generate_resolve rgb_module color_system True = Inr r \<and>
      r_primary r = RGBA 0 94 168 1 \<and> r_secondary r = RGBA 245 148 2 1 \<and>
      r_warning r = RGBA 255 160 0 1 \<and> r_error r = RGBA 198 40 40 1 \<and>
      r_success r = RGBA 85 139 47 1 \<and> r_accent1 r = RGBA 0 94 168 1 \<and>
      r_accent2 r = RGBA 245 148 2 1 \<and> r_background r = RGBA 0 0 0 1 \<and>
      r_surface r = RGBA 18 18 18 1"
    using r p own fall
    by (intro exI [of _ r])
      (simp add: parse_eq color_system_attrs rgb_parse_samples DEFAULT_DARK_BACKGROUND_def
        DEFAULT_DARK_SURFACE_def)
  have v': "valid_colors rgb_module primary_only False"
    by (rule valid_primary_only)
  have unset: "attr_secondary primary_only = None" "attr_warning primary_only = None"
    "attr_error primary_only = None" "attr_success primary_only = None"
    "attr_accent1 primary_only = None" "attr_accent2 primary_only = None"
    "attr_background primary_only = None" "attr_surface primary_only = None"
    "attr_primary primary_only = ''#005EA8''"
    by (simp_all add: primary_only_def ColorSystem_init_def)
  from fallback_chain [OF v', of "0.15" "0.9"] obtain r' where
    r': "generate_resolve rgb_module primary_only False = Inr r'"
    and p': "parse rgb_module (attr_primary primary_only) = Inr (r_primary r')"
    and rest: "r_secondary r' = r_primary r'" "r_warning r' = r_primary r'"
      "r_accent1 r' = r_primary r'" "r_error r' = r_primary r'" "r_success r' = r_primary r'"
      "r_accent2 r' = r_primary r'"
      "parse rgb_module DEFAULT_LIGHT_BACKGROUND = Inr (r_background r')"
      "parse rgb_module DEFAULT_LIGHT_SURFACE = Inr (r_surface r')"
    by (auto simp: unset)
  have second: "\<exists>r. generate_resolve rgb_module primary_only False = Inr r \<and>
      r_primary r = RGBA 0 94 168 1 \<and> r_secondary r = RGBA 0 94 168 1 \<and>
      r_warning r = RGBA 0 94 168 1 \<and> r_accent1 r = RGBA 0 94 168 1 \<and>
      r_error r = RGBA 0 94 168 1 \<and> r_success r = RGBA 0 94 168 1 \<and>
      r_accent2 r = RGBA 0 94 168 1 \<and> r_background r = RGBA 245 245 245 1 \<and>
      r_surface r = RGBA 239 239 239 1"
    using r' p' rest
    by (intro exI [of _ r'])
      (simp add: parse_eq unset rgb_parse_samples DEFAULT_LIGHT_BACKGROUND_def
        DEFAULT_LIGHT_SURFACE_def)
  show ?thesis
    using v first v' second by (intro conjI)
qed

section \<open>The colour of a shade\<close>






section \<open>Text colours and their fades\<close>

text \<open>
  Claim C5. Let \<open>c\<close> be the colour of a shade, stored in hex form under the name
  \<open>k\<close>. Then the entry \<open>text-k\<close> is the hex form of the contrasting text colour of
  \<open>c\<close> at \<open>text_alpha\<close>, and for \<open>fade\<close> 1 and 2 the entry \<open>text-k-fade-fade\<close>
  is the hex form of that text colour blended toward \<open>c\<close> with ratio
  \<open>fade * 0.1 + 0.15\<close>, which is 0.25 and 0.35.
\<close>

theorem text_entries:
  assumes "valid_colors m self dark"
  shows "\<exists>r pal. generate_resolve m self dark = Inr r \<and>
     generate m self dark ls ta = Inr pal \<and>
     (\<forall>(name, color) \<in> set (COLORS r). \<forall>n \<in> {-3..3}.
        (let is_dark_shade = (dark \<and> name \<in> DARK_SHADES);
             spread = (if is_dark_shade then ls / 1.5 else ls);
             c = shade_color_of m (r_background r) is_dark_shade spread color
                   (of_int n * (spread / 2));
             k = name @ shade_label n;
             text_color = get_contrast_text m c ta
         in map_of pal k = Some (hex m c) \<and>
            map_of pal (''text-'' @ k) = Some (hex m text_color) \<and>
            (\<forall>fade \<in> {1, 2}.
               map_of pal (''text-'' @ k @ ''-fade-'' @ str fade) =
                 Some (hex m (blend m text_color c (of_int fade * 0.1 + 0.15)))) \<and>
            map_of pal (''text-'' @ k @ ''-fade-1'') = Some (hex m (blend m text_color c 0.25)) \<and>
            map_of pal (''text-'' @ k @ ''-fade-2'') = Some (hex m (blend m text_color c 0.35))))"
proof -
  from resolve_total [OF assms] obtain r where r: "generate_resolve m self dark = Inr r" ..
  let ?pal = "all_writes m r dark ls ta"
  have ratio: "of_int 1 * 0.1 + 0.15 = (0.25 :: real)" "of_int 2 * 0.1 + 0.15 = (0.35 :: real)"
    by simp_all
  have "(let is_dark_shade = (dark \<and> name \<in> DARK_SHADES);
             spread = (if is_dark_shade then ls / 1.5 else ls);
             c = shade_color_of m (r_background r) is_dark_shade spread color
                   (of_int n * (spread / 2));
             k = name @ shade_label n;
             text_color = get_contrast_text m c ta
         in map_of ?pal k = Some (hex m c) \<and>
            map_of ?pal (''text-'' @ k) = Some (hex m text_color) \<and>
            (\<forall>fade \<in> {1, 2}.
               map_of ?pal (''text-'' @ k @ ''-fade-'' @ str fade) =
                 Some (hex m (blend m text_color c (of_int fade * 0.1 + 0.15)))) \<and>
            map_of ?pal (''text-'' @ k @ ''-fade-1'') = Some (hex m (blend m text_color c 0.25)) \<and>
            map_of ?pal (''text-'' @ k @ ''-fade-2'') = Some (hex m (blend m text_color c 0.35)))"
    if mem: "(name, color) \<in> set (COLORS r)" "n \<in> {-3..3}" for name color n
    using shade_entries [OF mem refl refl refl refl,
        where m = m and dark = dark and ls = ls and ta = ta]
    unfolding Let_def by (simp add: str_small ratio)
  then show ?thesis
    using generate_Inr [OF r, of ls ta] r by blast
qed

theorem text_entries_witness:
  "valid_colors rgb_module color_system False \<and>
   (\<exists>pal. generate rgb_module color_system False 0.15 0.9 = Inr pal \<and>
      map_of pal ''primary'' = Some ''#005EA8'' \<and>
      map_of pal ''text-primary'' = Some ''#FFFFFF'' \<and>
      map_of pal ''text-primary-fade-1'' = Some ''#BFD6E9'' \<and>
      map_of pal ''text-primary-fade-2'' = Some ''#A5C6E0'')"
proof -
  have v: "valid_colors rgb_module color_system False"
    by (rule valid_color_system)
  from text_entries [OF v, of "0.15" "0.9"]
  obtain r pal where r: "generate_resolve rgb_module color_system False = Inr r"
    and pal: "generate rgb_module color_system False 0.15 0.9 = Inr pal"
    and all: "\<forall>(name, color) \<in> set (COLORS r). \<forall>n \<in> {-3..3}.
        (let is_dark_shade = (False \<and> name \<in> DARK_SHADES);
             spread = (if is_dark_shade then 0.15 / 1.5 else 0.15);
             c = shade_color_of rgb_module (r_background r) is_dark_shade spread color
                   (of_int n * (spread / 2));
             k = name @ shade_label n;
             text_color = get_contrast_text rgb_module c 0.9
         in map_of pal k = Some (hex rgb_module c) \<and>
            map_of pal (''text-'' @ k) = Some (hex rgb_module text_color) \<and>
            (\<forall>fade \<in> {1, 2}.
               map_of pal (''text-'' @ k @ ''-fade-'' @ str fade) =
                 Some (hex rgb_module (blend rgb_module text_color c (of_int fade * 0.1 + 0.15)))) \<and>
            map_of pal (''text-'' @ k @ ''-fade-1'') =
              Some (hex rgb_module (blend rgb_module text_color c 0.25)) \<and>
            map_of pal (''text-'' @ k @ ''-fade-2'') =
              Some (hex rgb_module (blend rgb_module text_color c 0.35)))"
    by blast
  have mem: "(''primary'', RGBA 0 94 168 1) \<in> set (COLORS r)"
    using r unfolding resolve_color_system_light by (auto simp: COLORS_def)
  have c: "shade_color_of rgb_module bg False s (RGBA 0 94 168 1) 0 = RGBA 0 94 168 1"
    for bg s
    by (simp add: shade_color_of_def rgb_module_def rgb_lighten_zero)
  have fg: "get_contrast_text rgb_module (RGBA 0 94 168 1) x = RGBA 255 255 255 x" for x
    by (simp add: rgb_module_def rgb_get_contrast_text_def)
  have entries: "map_of pal ''primary'' = Some (hex rgb_module (RGBA 0 94 168 1))"
    "map_of pal ''text-primary'' = Some (hex rgb_module (RGBA 255 255 255 0.9))"
    "map_of pal ''text-primary-fade-1'' =
       Some (hex rgb_module (blend rgb_module (RGBA 255 255 255 0.9) (RGBA 0 94 168 1) 0.25))"
    "map_of pal ''text-primary-fade-2'' =
       Some (hex rgb_module (blend rgb_module (RGBA 255 255 255 0.9) (RGBA 0 94 168 1) 0.35))"
    using bspec [OF bspec [OF all mem, simplified prod.case], of 0]
    by (simp_all add: Let_def shade_label_zero c fg del: ball_simps)
  have "hex rgb_module (RGBA 0 94 168 1) = ''#005EA8''"
    "hex rgb_module (RGBA 255 255 255 0.9) = ''#FFFFFF''"
    "hex rgb_module (blend rgb_module (RGBA 255 255 255 0.9) (RGBA 0 94 168 1) 0.25) = ''#BFD6E9''"
    "hex rgb_module (blend rgb_module (RGBA 255 255 255 0.9) (RGBA 0 94 168 1) 0.35) = ''#A5C6E0''"
    by (simp_all add: rgb_module_def rgb_blend_def blend_channel_def
        rgb_hex_def hex2_def hex_digit_def clamp_channel_def)
  with entries have "map_of pal ''primary'' = Some ''#005EA8'' \<and>
      map_of pal ''text-primary'' = Some ''#FFFFFF'' \<and>
      map_of pal ''text-primary-fade-1'' = Some ''#BFD6E9'' \<and>
      map_of pal ''text-primary-fade-2'' = Some ''#A5C6E0''"
    by (simp only: simp_thms)
  with v pal show ?thesis by blast
qed

section \<open>A luminosity spread of zero\<close>



section \<open>The form of the values\<close>




section \<open>Failure\<close>

text \<open>
  Claim C6. \<open>generate\<close> never returns a part of a palette. Either the nine colours
  resolve and \<open>generate\<close> returns the full mapping of 252 names, or resolution raises,
  \<open>generate\<close> raises the same error before any entry is written, and the error is one
  that \<open>Color.parse\<close> raised. \<open>generate\<close> returns exactly when the colours are valid,
  so with valid colours it does not fail.
\<close>

theorem no_partial_palette:
  "((\<exists>r pal. generate_resolve m self dark = Inr r \<and> generate m self dark ls ta = Inr pal \<and>
        map fst pal = palette_keys \<and> length pal = 252) \<or>
    (\<exists>e s. generate_resolve m self dark = Inl e \<and> generate m self dark ls ta = Inl e \<and>
        parse m s = Inl e)) \<and>
   (valid_colors m self dark \<longleftrightarrow> (\<exists>pal. generate m self dark ls ta = Inr pal))"
proof (cases "generate_resolve m self dark")
  case (Inl e)
  from resolve_Inl [OF Inl] obtain s where "parse m s = Inl e" ..
  moreover have "generate m self dark ls ta = Inl e"
    using Inl by (rule generate_Inl)
  moreover have "\<not> valid_colors m self dark"
    using resolve_total [of m self dark] Inl by auto
  ultimately show ?thesis
    using Inl by auto
next
  case (Inr r)
  let ?pal = "all_writes m r dark ls ta"
  have gen: "generate m self dark ls ta = Inr ?pal"
    using Inr by (rule generate_Inr)
  have keys: "map fst ?pal = palette_keys"
    by (rule keys_all_writes)
  have "length (map fst ?pal) = 252"
    unfolding keys by (rule length_palette_keys)
  then have len: "length ?pal = 252"
    by simp
  have "valid_colors m self dark"
    using Inr by (rule resolve_valid)
  then show ?thesis
    using Inr gen keys len by auto
qed

theorem no_partial_palette_witness:
  "(\<exists>pal. generate rgb_module color_system False 0.15 0.9 = Inr pal \<and> length pal = 252) \<and>
   generate rgb_module malformed_system False 0.15 0.9 = Inl (ColorParseError ''orange'') \<and>
   \<not> valid_colors rgb_module malformed_system False"
proof -
  have "\<exists>pal. generate rgb_module color_system False 0.15 0.9 = Inr pal \<and> length pal = 252"
    using no_partial_palette [of rgb_module color_system False "0.15" "0.9"]
      resolve_color_system_light by auto
  moreover have "generate rgb_module malformed_system False 0.15 0.9 =
      Inl (ColorParseError ''orange'') \<and> \<not> valid_colors rgb_module malformed_system False"
    using no_partial_palette [of rgb_module malformed_system False "0.15" "0.9"]
      resolve_malformed [of False] by auto
  ultimately show ?thesis by blast
qed

section \<open>Parsing on access\<close>

text \<open>
  Claim C7. The constructor stores its nine arguments as they are, parses nothing and
  cannot raise, whatever the strings. Reading an attribute parses the text stored for that
  attribute, on every read: the read raises exactly when that attribute is set to a text
  that \<open>Color.parse\<close> rejects, and then it raises the error of \<open>Color.parse\<close>.
\<close>

theorem lazy_parse:
  "(let obj = ColorSystem_init p s w e su a1 a2 bg sf
    in stored obj Primary = Some p \<and>
       stored obj (Descriptor Secondary) = s \<and> stored obj (Descriptor Warning) = w \<and>
       stored obj (Descriptor Error) = e \<and> stored obj (Descriptor Success) = su \<and>
       stored obj (Descriptor Accent1) = a1 \<and> stored obj (Descriptor Accent2) = a2 \<and>
       stored obj (Descriptor Background) = bg \<and> stored obj (Descriptor Surface) = sf \<and>
       (\<forall>a. read m obj a =
          (case stored obj a of
             None \<Rightarrow> Inr None
           | Some t \<Rightarrow> (case parse m t of Inl x \<Rightarrow> Inl x | Inr c \<Rightarrow> Inr (Some c)))) \<and>
       (\<forall>a x. read m obj a = Inl x \<longleftrightarrow> (\<exists>t. stored obj a = Some t \<and> parse m t = Inl x)))"
proof -
  have "read m obj a = Inl x \<longleftrightarrow> (\<exists>t. stored obj a = Some t \<and> parse m t = Inl x)"
    for obj a x
    by (simp add: read_stored split: option.splits sum.splits)
  then show ?thesis
    unfolding Let_def by (simp add: ColorSystem_init_def read_stored [symmetric])
qed

theorem lazy_parse_witness:
  "read rgb_module malformed_system (Descriptor Secondary) = Inl (ColorParseError ''orange'') \<and>
   read rgb_module malformed_system Primary = Inr (Some (RGBA 0 94 168 1)) \<and>
   read rgb_module malformed_system (Descriptor Warning) = Inr None"
proof -
  note lp = lazy_parse [of "''#005EA8''" "Some ''orange''" None None None None None None None
      rgb_module, unfolded Let_def, folded malformed_system_def]
  have all: "read rgb_module malformed_system a =
          (case stored malformed_system a of
             None \<Rightarrow> Inr None
           | Some t \<Rightarrow> (case parse rgb_module t of Inl x \<Rightarrow> Inl x | Inr c \<Rightarrow> Inr (Some c)))"
    for a
    using lp by blast
  from lp have st: "stored malformed_system Primary = Some ''#005EA8''"
    "stored malformed_system (Descriptor Secondary) = Some ''orange''"
    "stored malformed_system (Descriptor Warning) = None"
    by blast+
  have "read rgb_module malformed_system (Descriptor Secondary) =
      Inl (ColorParseError ''orange'')"
    unfolding all [of "Descriptor Secondary"] st
    by (simp add: rgb_module_def rgb_parse_samples)
  moreover have "read rgb_module malformed_system Primary = Inr (Some (RGBA 0 94 168 1))"
    unfolding all [of Primary] st
    by (simp add: rgb_module_def rgb_parse_samples)
  moreover have "read rgb_module malformed_system (Descriptor Warning) = Inr None"
    unfolding all [of "Descriptor Warning"] st
    by simp
  ultimately show ?thesis by blast
qed

section \<open>Assignment to the attributes\<close>

text \<open>
  Claim C8, as amended. The attribute \<open>primary\<close> cannot be assigned: it is a property
  without a setter, and the assignment raises \<open>AttributeError\<close>. Each of the eight
  optional attributes can be assigned after construction, through
  \<open>ColorProperty.__set__\<close>: the assignment replaces the stored value of that attribute
  (by the \<open>css\<close> text of a colour, by a string or \<open>None\<close> as given) and leaves
  \<open>primary\<close> and the other seven attributes as they were.
\<close>

theorem assignment_effect:
  "assign m obj Primary v = Inl (AttributeError ''primary'') \<and>
   (\<exists>obj'. assign m obj (Descriptor p) v = Inr obj' \<and>
      getattr obj' p =
        (case v of ColorValue c \<Rightarrow> Some (css m c) | StrValue s \<Rightarrow> Some s | NoneValue \<Rightarrow> None) \<and>
      (\<forall>q. q \<noteq> p \<longrightarrow> getattr obj' q = getattr obj q) \<and>
      attr_primary obj' = attr_primary obj)"
  by (cases v) (simp_all add: ColorProperty_set_def getattr_setattr primary_setattr)

theorem assignment_effect_witness:
  "assign rgb_module color_system Primary (StrValue ''#FFFFFF'') =
     Inl (AttributeError ''primary'') \<and>
   (\<exists>obj'. assign rgb_module color_system (Descriptor Secondary) (StrValue ''#FFFFFF'') =
        Inr obj' \<and>
      getattr obj' Secondary = Some ''#FFFFFF'' \<and>
      getattr obj' Warning = getattr color_system Warning \<and>
      attr_primary obj' = attr_primary color_system)"
proof -
  from assignment_effect [of rgb_module color_system "StrValue ''#FFFFFF''" Secondary]
  obtain obj' where
    "assign rgb_module color_system Primary (StrValue ''#FFFFFF'') =
       Inl (AttributeError ''primary'')"
    "assign rgb_module color_system (Descriptor Secondary) (StrValue ''#FFFFFF'') = Inr obj'"
    "getattr obj' Secondary = Some ''#FFFFFF''"
    "\<forall>q. q \<noteq> Secondary \<longrightarrow> getattr obj' q = getattr color_system q"
    "attr_primary obj' = attr_primary color_system"
    by auto
  then show ?thesis by auto
qed

text \<open>
  Claim C8 as stated, that no public operation changes an optional field once the
  instance is constructed, fails: assigning a string to \<open>secondary\<close> of the colour
  system of \<open>__main__\<close> changes the colour that reading \<open>secondary\<close> returns.
\<close>

theorem read_only_counterexample:
  "assign rgb_module color_system (Descriptor Secondary) (StrValue ''#FFFFFF'') =
     Inr (color_system\<lparr>attr_secondary := Some ''#FFFFFF''\<rparr>) \<and>
   read rgb_module color_system (Descriptor Secondary) = Inr (Some (RGBA 245 148 2 1)) \<and>
   read rgb_module (color_system\<lparr>attr_secondary := Some ''#FFFFFF''\<rparr>) (Descriptor Secondary) =
     Inr (Some (RGBA 255 255 255 1))"
  by (simp add: ColorProperty_set_def ColorProperty_get_def and_then_def color_system_def
      ColorSystem_init_def rgb_module_def rgb_parse_samples rgb_parse_def hex_pair_def
      hex_value_def)

end
